theory Spec2Isabelle
  imports Complex_Main "HOL-Library.Word" "HOL-Library.Sublist"
begin

section \<open>JavaScript values\<close>

text \<open>
  A JavaScript string is a sequence of UTF-16 code units; \<open>length\<close> counts code units, as
  \<^verbatim>\<open>text.length\<close> does. \<open>js\<close> embeds an ASCII literal of the source.
\<close>

type_synonym jsstring = "16 word list"

definition js :: "string \<Rightarrow> jsstring" where
  "js s = map (\<lambda>c. of_nat (of_char c)) s"

text \<open>
  Numbers are IEEE doubles. Only their truthiness is ever asked for
  (\<^verbatim>\<open>data.translation || ...\<close>, \<^verbatim>\<open>!message.summary\<close>), so a finite double is carried as the
  rational it denotes (\<open>-0\<close> as \<open>0\<close>) and no arithmetic is modelled.
\<close>

datatype jsnum = NaN | Infinity bool | Finite rat

text \<open>
  The values that cross the boundary of the component: what \<^verbatim>\<open>response.json()\<close> can
  resolve to, what a summarizer can return, and \<^verbatim>\<open>undefined\<close> for an absent property.
  An object is the list of its own properties, each key once.
\<close>

datatype jsval =
    JUndefined
  | JNull
  | JBool bool
  | JNum jsnum
  | JStr jsstring
  | JArr "jsval list"
  | JObj "(jsstring \<times> jsval) list"

text \<open>ToBoolean, as used by \<^verbatim>\<open>||\<close>, \<^verbatim>\<open>&&\<close> and \<^verbatim>\<open>!\<close>.\<close>

fun truthy :: "jsval \<Rightarrow> bool" where
  "truthy JUndefined = False"
| "truthy JNull = False"
| "truthy (JBool b) = b"
| "truthy (JNum NaN) = False"
| "truthy (JNum (Infinity _)) = True"
| "truthy (JNum (Finite q)) = (q \<noteq> 0)"
| "truthy (JStr s) = (s \<noteq> [])"
| "truthy (JArr _) = True"
| "truthy (JObj _) = True"

text \<open>
  \<^verbatim>\<open>String.prototype.trim\<close> strips WhiteSpace and LineTerminator code units from both ends:
  TAB, LF, VT, FF, CR, SP, NBSP, U+1680, U+2000..U+200A, LS, PS, U+202F, U+205F, U+3000
  and U+FEFF.
\<close>

definition is_ws :: "16 word \<Rightarrow> bool" where
  "is_ws c \<longleftrightarrow>
     c = 0x9 \<or> c = 0xA \<or> c = 0xB \<or> c = 0xC \<or> c = 0xD \<or> c = 0x20 \<or> c = 0xA0 \<or>
     c = 0x1680 \<or> (0x2000 \<le> c \<and> c \<le> 0x200A) \<or> c = 0x2028 \<or> c = 0x2029 \<or>
     c = 0x202F \<or> c = 0x205F \<or> c = 0x3000 \<or> c = 0xFEFF"

definition trim :: "jsstring \<Rightarrow> jsstring" where
  "trim s = rev (dropWhile is_ws (rev (dropWhile is_ws s)))"

section \<open>The component's state\<close>

text \<open>
  A message object as \<^verbatim>\<open>handleSend\<close> builds it: \<^verbatim>\<open>{id, text, translations, summary}\<close>.
  The render code also reads \<^verbatim>\<open>message.language\<close>, a property the literal does not have;
  the record carries it so that the read has a value (\<^verbatim>\<open>undefined\<close> when absent).
  \<^verbatim>\<open>translations\<close> is an object used as a dictionary from language code to value.
\<close>

record message =
  id_of :: int
  text_of :: jsstring
  language_of :: jsval
  translations_of :: "jsstring \<rightharpoonup> jsval"
  summary_of :: jsval

text \<open>The five \<^verbatim>\<open>useState\<close> cells of \<^verbatim>\<open>TextProcessor\<close>; \<^verbatim>\<open>null\<close> in \<open>error\<close> is \<open>None\<close>.\<close>

record state =
  messages :: "message list"
  inputText :: jsstring
  loading :: bool
  error :: "jsstring option"
  welcomeMessage :: bool

definition initial :: state where
  "initial = \<lparr>messages = [], inputText = [], loading = False, error = None,
              welcomeMessage = True\<rparr>"

text \<open>The \<^verbatim>\<open>languages\<close> table (code, name).\<close>

definition languages :: "(jsstring \<times> jsstring) list" where
  "languages =
     [(js ''en'', js ''English''), (js ''pt'', js ''Portuguese''), (js ''es'', js ''Spanish''),
      (js ''ru'', js ''Russian''), (js ''tr'', js ''Turkish''), (js ''fr'', js ''French'')]"

definition codes :: "jsstring list" where
  "codes = map fst languages"

section \<open>The platform\<close>

text \<open>
  What the component takes from its surroundings. \<open>window_ai\<close> is what
  \<^verbatim>\<open>summarizeText\<close> meets when it probes \<^verbatim>\<open>window.ai\<close>:
  \<^item> \<open>NoSummarizer\<close>: \<^verbatim>\<open>window.ai && window.ai.summarizer\<close> is falsy;
  \<^item> \<open>CreateFails\<close>: \<^verbatim>\<open>create()\<close> throws or rejects, or resolves to \<^verbatim>\<open>null\<close> or
    \<^verbatim>\<open>undefined\<close> (reading \<^verbatim>\<open>.summarize\<close> then throws);
  \<^item> \<open>NoSummarizeMethod\<close>: the instance has a falsy \<^verbatim>\<open>summarize\<close>;
  \<^item> \<open>Summarizer f\<close>: \<^verbatim>\<open>summarize(text)\<close> resolves to \<open>v\<close> when \<open>f text = Some v\<close> and throws
    or rejects when \<open>f text = None\<close>.
\<close>

datatype window_ai =
    NoSummarizer
  | CreateFails
  | NoSummarizeMethod
  | Summarizer "jsstring \<Rightarrow> jsval option"

text \<open>
  \<^verbatim>\<open>fetch(url)\<close> rejects (\<open>NetworkError\<close>) or resolves to a response with a status and a
  body; \<^verbatim>\<open>response.json()\<close> rejects on a body that is not JSON (\<open>NotJson\<close>) or resolves
  to the parsed value. \<^verbatim>\<open>response.ok\<close> is true for the statuses 200 to 299.
\<close>

datatype body = NotJson | Json jsval

datatype fetch_outcome = NetworkError | Response nat body

definition ok :: "nat \<Rightarrow> bool" where
  "ok status \<longleftrightarrow> 200 \<le> status \<and> status \<le> 299"

text \<open>
  \<open>now\<close> is \<^verbatim>\<open>Date.now()\<close>. \<open>typeErrorMessage\<close> is the \<^verbatim>\<open>message\<close> the engine gives the
  TypeError it throws for a property read on \<^verbatim>\<open>undefined\<close> (the text differs between
  engines). \<open>encodeURIComponent\<close> is \<open>None\<close> where the built-in throws URIError (a lone
  surrogate).
\<close>

record env =
  now :: int
  typeErrorMessage :: jsstring
  encodeURIComponent :: "jsstring \<Rightarrow> jsstring option"
  ai :: window_ai
  fetch :: "jsstring \<Rightarrow> fetch_outcome"

section \<open>summarizeText and translateText\<close>

text \<open>
  The \<^verbatim>\<open>try\<close> block of \<^verbatim>\<open>summarizeText\<close>. Whatever it throws is only logged by the
  \<^verbatim>\<open>catch\<close>, so a throw is \<open>None\<close>. Falling out of the \<^verbatim>\<open>if\<close>s reaches
  \<^verbatim>\<open>throw new Error("Summarizer API is not available")\<close>.
\<close>

fun summarizeText_try :: "window_ai \<Rightarrow> jsstring \<Rightarrow> jsval option" where
  "summarizeText_try NoSummarizer text = None"
| "summarizeText_try CreateFails text = None"
| "summarizeText_try NoSummarizeMethod text = None"
| "summarizeText_try (Summarizer f) text = f text"

text \<open>The whole function: \<open>Inl\<close> is the message of the Error it throws.\<close>

definition summarizeText :: "window_ai \<Rightarrow> jsstring \<Rightarrow> jsstring + jsval" where
  "summarizeText a text =
     (case summarizeText_try a text of
        Some v \<Rightarrow> Inr v
      | None \<Rightarrow> Inl (js ''Summarization failed''))"

text \<open>The argument of \<^verbatim>\<open>fetch\<close>; \<open>None\<close> when \<^verbatim>\<open>encodeURIComponent\<close> throws.\<close>

definition translate_url ::
  "(jsstring \<Rightarrow> jsstring option) \<Rightarrow> jsstring \<Rightarrow> jsstring \<Rightarrow> jsstring option" where
  "translate_url enc text targetLang =
     (case enc text of
        None \<Rightarrow> None
      | Some t \<Rightarrow> Some (js ''https://lingva.ml/api/v1/en/'' @ targetLang @ js ''/'' @ t))"

text \<open>
  \<^verbatim>\<open>data.translation\<close>: a TypeError (\<open>None\<close>) on \<^verbatim>\<open>null\<close> and \<^verbatim>\<open>undefined\<close>, the property's
  value on an object that has it, \<^verbatim>\<open>undefined\<close> otherwise.
\<close>

fun get_translation :: "jsval \<Rightarrow> jsval option" where
  "get_translation JUndefined = None"
| "get_translation JNull = None"
| "get_translation (JObj ps) =
     Some (case map_of ps (js ''translation'') of None \<Rightarrow> JUndefined | Some v \<Rightarrow> v)"
| "get_translation _ = Some JUndefined"

text \<open>The \<^verbatim>\<open>try\<close> block of \<^verbatim>\<open>translateText\<close>; again a throw is \<open>None\<close>.\<close>

definition translateText_try :: "env \<Rightarrow> jsstring \<Rightarrow> jsstring \<Rightarrow> jsval option" where
  "translateText_try e text targetLang =
     (case translate_url (encodeURIComponent e) text targetLang of
        None \<Rightarrow> None
      | Some url \<Rightarrow>
          (case fetch e url of
             NetworkError \<Rightarrow> None
           | Response status b \<Rightarrow>
               if \<not> ok status then None
               else (case b of
                       NotJson \<Rightarrow> None
                     | Json data \<Rightarrow>
                         (case get_translation data of
                            None \<Rightarrow> None
                          | Some t \<Rightarrow>
                              Some (if truthy t then t
                                    else JStr (js ''Translation failed.''))))))"

definition translateText :: "env \<Rightarrow> jsstring \<Rightarrow> jsstring \<Rightarrow> jsstring + jsval" where
  "translateText e text targetLang =
     (case translateText_try e text targetLang of
        Some v \<Rightarrow> Inr v
      | None \<Rightarrow> Inl (js ''Translation failed.''))"

section \<open>handleSend\<close>

text \<open>
  \<^verbatim>\<open>handleSend\<close> has no \<^verbatim>\<open>await\<close>: it runs to completion in one turn.
  \<open>handleSend_entry\<close> is the state once \<^verbatim>\<open>setLoading(true); setError(null)\<close>
  have run, before the \<^verbatim>\<open>try\<close> block; the body of the \<^verbatim>\<open>try\<close> cannot throw.
\<close>

definition handleSend_entry :: "state \<Rightarrow> state" where
  "handleSend_entry st = st\<lparr>loading := True, error := None\<rparr>"

definition handleSend :: "env \<Rightarrow> state \<Rightarrow> state" where
  "handleSend e st =
     (if trim (inputText st) = [] then st
      else
        let st1 = handleSend_entry st;
            newMessage = \<lparr>id_of = now e, text_of = inputText st, language_of = JUndefined,
                          translations_of = Map.empty, summary_of = JNull\<rparr>;
            st2 = st1\<lparr>messages := messages st1 @ [newMessage]\<rparr>;
            st3 = st2\<lparr>inputText := []\<rparr>
        in st3\<lparr>loading := False\<rparr>)"

section \<open>handleSummarize and handleTranslate\<close>

text \<open>
  Each handler runs in two turns. The first runs up to its \<^verbatim>\<open>await\<close>: it sets the flags,
  looks the message up and starts the call on the message's text. When the lookup finds
  nothing, \<^verbatim>\<open>message.text\<close> throws a TypeError before anything is called; the \<^verbatim>\<open>catch\<close> and
  \<^verbatim>\<open>finally\<close> run in the same turn and no call is pending (\<open>None\<close>). The second turn
  resumes with the outcome of the call; \<^verbatim>\<open>setMessages\<close> is given a function, so it maps
  over the list as it is at that moment.
\<close>

definition handleSummarize_start :: "env \<Rightarrow> state \<Rightarrow> int \<Rightarrow> state \<times> jsstring option" where
  "handleSummarize_start e st messageId =
     (let st1 = st\<lparr>loading := True, error := None\<rparr> in
      case find (\<lambda>m. id_of m = messageId) (messages st) of
        None \<Rightarrow> (st1\<lparr>error := Some (typeErrorMessage e), loading := False\<rparr>, None)
      | Some message \<Rightarrow> (st1, Some (text_of message)))"

definition handleSummarize_settle :: "state \<Rightarrow> int \<Rightarrow> jsstring + jsval \<Rightarrow> state" where
  "handleSummarize_settle st messageId r =
     (case r of
        Inr summary \<Rightarrow>
          st\<lparr>messages :=
                map (\<lambda>msg. if id_of msg = messageId then msg\<lparr>summary_of := summary\<rparr> else msg)
                  (messages st),
             loading := False\<rparr>
      | Inl err_message \<Rightarrow> st\<lparr>error := Some err_message, loading := False\<rparr>)"

definition handleSummarize :: "env \<Rightarrow> state \<Rightarrow> int \<Rightarrow> state" where
  "handleSummarize e st messageId =
     (case handleSummarize_start e st messageId of
        (st1, None) \<Rightarrow> st1
      | (st1, Some text) \<Rightarrow> handleSummarize_settle st1 messageId (summarizeText (ai e) text))"

definition handleTranslate_start ::
  "env \<Rightarrow> state \<Rightarrow> int \<Rightarrow> jsstring \<Rightarrow> state \<times> jsstring option" where
  "handleTranslate_start e st messageId targetLang =
     (let st1 = st\<lparr>loading := True, error := None\<rparr> in
      case find (\<lambda>m. id_of m = messageId) (messages st) of
        None \<Rightarrow> (st1\<lparr>error := Some (typeErrorMessage e), loading := False\<rparr>, None)
      | Some message \<Rightarrow> (st1, Some (text_of message)))"

definition handleTranslate_settle ::
  "state \<Rightarrow> int \<Rightarrow> jsstring \<Rightarrow> jsstring + jsval \<Rightarrow> state" where
  "handleTranslate_settle st messageId targetLang r =
     (case r of
        Inr translation \<Rightarrow>
          st\<lparr>messages :=
                map (\<lambda>msg. if id_of msg = messageId
                           then msg\<lparr>translations_of :=
                                      (translations_of msg)(targetLang \<mapsto> translation)\<rparr>
                           else msg)
                  (messages st),
             loading := False\<rparr>
      | Inl err_message \<Rightarrow> st\<lparr>error := Some err_message, loading := False\<rparr>)"

definition handleTranslate :: "env \<Rightarrow> state \<Rightarrow> int \<Rightarrow> jsstring \<Rightarrow> state" where
  "handleTranslate e st messageId targetLang =
     (case handleTranslate_start e st messageId targetLang of
        (st1, None) \<Rightarrow> st1
      | (st1, Some text) \<Rightarrow>
          handleTranslate_settle st1 messageId targetLang (translateText e text targetLang))"

text \<open>
  The URL a \<^verbatim>\<open>handleTranslate\<close> call passes to \<^verbatim>\<open>fetch\<close>, if it gets that far: none when
  the lookup fails or \<^verbatim>\<open>encodeURIComponent\<close> throws.
\<close>

definition handleTranslate_request :: "env \<Rightarrow> state \<Rightarrow> int \<Rightarrow> jsstring \<Rightarrow> jsstring option" where
  "handleTranslate_request e st messageId targetLang =
     (case snd (handleTranslate_start e st messageId targetLang) of
        None \<Rightarrow> None
      | Some text \<Rightarrow> translate_url (encodeURIComponent e) text targetLang)"

section \<open>What the page lets the user do\<close>

text \<open>
  The summarize button of a message is rendered only when
  \<^verbatim>\<open>message.language === 'en' && message.text.length > 150 && !message.summary\<close>.
\<close>

definition eligible :: "message \<Rightarrow> bool" where
  "eligible m \<longleftrightarrow>
     language_of m = JStr (js ''en'') \<and> 150 < length (text_of m) \<and> \<not> truthy (summary_of m)"

text \<open>
  The values of the \<^verbatim>\<open>option\<close>s of a message's \<^verbatim>\<open>select\<close>: the placeholder
  \<^verbatim>\<open><option value="">\<close> first, then one per entry of \<^verbatim>\<open>languages\<close>.
\<close>

definition select_values :: "jsstring list" where
  "select_values = [] # codes"

text \<open>
  A call that a handler is waiting for: the message id the handler was given, the target
  language for a translation, and the text the call was started on.
\<close>

datatype call = SummarizeCall int jsstring | TranslateCall int jsstring jsstring

record config =
  ui :: state
  inflight :: "call list"

definition start_config :: config where
  "start_config = \<lparr>ui = initial, inflight = []\<rparr>"

text \<open>
  The events of the page. Each carries the platform as it is when the event happens.
  \<^item> \<open>Input v\<close>: the textarea's \<^verbatim>\<open>onChange\<close>.
  \<^item> \<open>Send e\<close>: a click on the send button (\<^verbatim>\<open>disabled={loading || !inputText.trim()}\<close>),
    which runs \<^verbatim>\<open>handleSend(); setWelcomeMessage(false)\<close>.
  \<^item> \<open>SummarizeClick e i\<close>: a click on the summarize button of the \<open>i\<close>-th message
    (rendered when eligible, \<^verbatim>\<open>disabled={loading}\<close>).
  \<^item> \<open>SelectChange e i v\<close>: the \<^verbatim>\<open>select\<close> of the \<open>i\<close>-th message changes to the option
    value \<open>v\<close> (\<^verbatim>\<open>disabled={loading}\<close>).
  \<^item> \<open>Settle e k\<close>: the \<open>k\<close>-th pending call settles and its handler resumes.
  \<open>fire\<close> is \<open>None\<close> when the page does not offer the event. \<open>opts\<close> is the list of
  values the \<^verbatim>\<open>select\<close>s offer.
\<close>

datatype event =
    Input jsstring
  | Send env
  | SummarizeClick env nat
  | SelectChange env nat jsstring
  | Settle env nat

fun settle_call :: "env \<Rightarrow> state \<Rightarrow> call \<Rightarrow> state" where
  "settle_call e st (SummarizeCall messageId text) =
     handleSummarize_settle st messageId (summarizeText (ai e) text)"
| "settle_call e st (TranslateCall messageId targetLang text) =
     handleTranslate_settle st messageId targetLang (translateText e text targetLang)"

fun fire :: "jsstring list \<Rightarrow> event \<Rightarrow> config \<Rightarrow> config option" where
  "fire opts (Input v) c = Some (c\<lparr>ui := (ui c)\<lparr>inputText := v\<rparr>\<rparr>)"
| "fire opts (Send e) c =
     (if loading (ui c) \<or> trim (inputText (ui c)) = [] then None
      else Some (c\<lparr>ui := (handleSend e (ui c))\<lparr>welcomeMessage := False\<rparr>\<rparr>))"
| "fire opts (SummarizeClick e i) c =
     (if i < length (messages (ui c)) \<and> eligible (messages (ui c) ! i) \<and> \<not> loading (ui c)
      then
        (let messageId = id_of (messages (ui c) ! i) in
         case handleSummarize_start e (ui c) messageId of
           (s, None) \<Rightarrow> Some (c\<lparr>ui := s\<rparr>)
         | (s, Some text) \<Rightarrow>
             Some \<lparr>ui = s, inflight = inflight c @ [SummarizeCall messageId text]\<rparr>)
      else None)"
| "fire opts (SelectChange e i v) c =
     (if i < length (messages (ui c)) \<and> v \<in> set opts \<and> \<not> loading (ui c)
      then
        (let messageId = id_of (messages (ui c) ! i) in
         case handleTranslate_start e (ui c) messageId v of
           (s, None) \<Rightarrow> Some (c\<lparr>ui := s\<rparr>)
         | (s, Some text) \<Rightarrow>
             Some \<lparr>ui = s, inflight = inflight c @ [TranslateCall messageId v text]\<rparr>)
      else None)"
| "fire opts (Settle e k) c =
     (if k < length (inflight c)
      then Some \<lparr>ui = settle_call e (ui c) (inflight c ! k),
                 inflight = take k (inflight c) @ drop (Suc k) (inflight c)\<rparr>
      else None)"

fun run :: "jsstring list \<Rightarrow> event list \<Rightarrow> config \<Rightarrow> config option" where
  "run opts [] c = Some c"
| "run opts (ev # evs) c =
     (case fire opts ev c of None \<Rightarrow> None | Some c' \<Rightarrow> run opts evs c')"

definition reachable :: "jsstring list \<Rightarrow> config \<Rightarrow> bool" where
  "reachable opts c \<longleftrightarrow> (\<exists>evs. run opts evs start_config = Some c)"

text \<open>The properties of a state that the page's events are shown to keep.\<close>

definition no_language :: "state \<Rightarrow> bool" where
  "no_language st \<longleftrightarrow> list_all (\<lambda>m. language_of m = JUndefined) (messages st)"

definition translation_keys :: "state \<Rightarrow> jsstring set" where
  "translation_keys st = (\<Union>m\<in>set (messages st). dom (translations_of m))"

fun target_within :: "jsstring list \<Rightarrow> call \<Rightarrow> bool" where
  "target_within opts (SummarizeCall messageId text) = True"
| "target_within opts (TranslateCall messageId targetLang text) = (targetLang \<in> set opts)"

definition keys_within :: "jsstring list \<Rightarrow> config \<Rightarrow> bool" where
  "keys_within opts c \<longleftrightarrow>
     translation_keys (ui c) \<subseteq> set opts \<and> list_all (target_within opts) (inflight c)"

definition busy_matches :: "config \<Rightarrow> bool" where
  "busy_matches c \<longleftrightarrow> (loading (ui c) \<longleftrightarrow> inflight c \<noteq> []) \<and> length (inflight c) \<le> 1"

section \<open>A concrete platform\<close>

text \<open>
  \<^verbatim>\<open>encodeURIComponent\<close> as ECMAScript defines it: the unreserved code units
  (letters, digits and \<^verbatim>\<open>- _ . ! ~ * ' ( )\<close>) are kept, every other code point is
  written as the \<^verbatim>\<open>%XX\<close> escapes of its UTF-8 bytes, and a surrogate without its partner
  throws URIError.
\<close>

definition unreserved :: "16 word \<Rightarrow> bool" where
  "unreserved c \<longleftrightarrow>
     (0x41 \<le> c \<and> c \<le> 0x5A) \<or> (0x61 \<le> c \<and> c \<le> 0x7A) \<or> (0x30 \<le> c \<and> c \<le> 0x39) \<or>
     c = 0x2D \<or> c = 0x5F \<or> c = 0x2E \<or> c = 0x21 \<or> c = 0x7E \<or> c = 0x2A \<or> c = 0x27 \<or>
     c = 0x28 \<or> c = 0x29"

definition hex_digit :: "nat \<Rightarrow> 16 word" where
  "hex_digit n = (if n < 10 then of_nat (48 + n) else of_nat (55 + n))"

definition percent :: "nat \<Rightarrow> jsstring" where
  "percent b = [0x25, hex_digit (b div 16), hex_digit (b mod 16)]"

definition utf8 :: "nat \<Rightarrow> nat list" where
  "utf8 cp =
     (if cp < 0x80 then [cp]
      else if cp < 0x800 then [0xC0 + cp div 64, 0x80 + cp mod 64]
      else if cp < 0x10000 then [0xE0 + cp div 4096, 0x80 + cp div 64 mod 64, 0x80 + cp mod 64]
      else [0xF0 + cp div 262144, 0x80 + cp div 4096 mod 64, 0x80 + cp div 64 mod 64,
            0x80 + cp mod 64])"

definition escape :: "nat \<Rightarrow> jsstring" where
  "escape cp = concat (map percent (utf8 cp))"

definition lead :: "16 word \<Rightarrow> bool" where
  "lead c \<longleftrightarrow> 0xD800 \<le> c \<and> c \<le> 0xDBFF"

definition trail :: "16 word \<Rightarrow> bool" where
  "trail c \<longleftrightarrow> 0xDC00 \<le> c \<and> c \<le> 0xDFFF"

fun encodeURIComponent_std :: "jsstring \<Rightarrow> jsstring option" where
  "encodeURIComponent_std [] = Some []"
| "encodeURIComponent_std [c] =
     (if unreserved c then Some [c]
      else if lead c \<or> trail c then None
      else Some (escape (unat c)))"
| "encodeURIComponent_std (c # d # cs) =
     (if unreserved c then map_option ((#) c) (encodeURIComponent_std (d # cs))
      else if trail c then None
      else if lead c then
        (if trail d
         then map_option
                ((@) (escape (0x10000 + (unat c - 0xD800) * 0x400 + (unat d - 0xDC00))))
                (encodeURIComponent_std cs)
         else None)
      else map_option ((@) (escape (unat c))) (encodeURIComponent_std (d # cs)))"

text \<open>
  A platform for worked examples: the clock reads \<open>t\<close>, there is no summarizer unless
  one is put in, and every request gets the response \<open>r\<close>.
\<close>

definition platform :: "int \<Rightarrow> fetch_outcome \<Rightarrow> env" where
  "platform t r =
     \<lparr>now = t, typeErrorMessage = js ''message is undefined'',
      encodeURIComponent = encodeURIComponent_std, ai = NoSummarizer, fetch = (\<lambda>url. r)\<rparr>"

text \<open>
  The collaborator's failures, in the words of the interface description: the
  summarization capability is unavailable or errors on the text; the HTTP request of a
  translation cannot be made, is rejected by the network, or comes back with a status that
  is not a success.
\<close>

definition summarizer_fails :: "window_ai \<Rightarrow> jsstring \<Rightarrow> bool" where
  "summarizer_fails a text = (case a of Summarizer f \<Rightarrow> f text = None | _ \<Rightarrow> True)"

definition request_fails :: "env \<Rightarrow> jsstring \<Rightarrow> jsstring \<Rightarrow> bool" where
  "request_fails e text targetLang =
     (case translate_url (encodeURIComponent e) text targetLang of
        None \<Rightarrow> True
      | Some url \<Rightarrow>
          (case fetch e url of NetworkError \<Rightarrow> True | Response status b \<Rightarrow> \<not> ok status))"

text \<open>A response with status 200 whose body is the JSON object \<^verbatim>\<open>{"translation": s}\<close>.\<close>

definition translated :: "string \<Rightarrow> fetch_outcome" where
  "translated s = Response 200 (Json (JObj [(js ''translation'', JStr (js s))]))"

text \<open>The state after "Hello world" has been sent at time 7.\<close>

definition hello :: message where
  "hello = \<lparr>id_of = 7, text_of = js ''Hello world'', language_of = JUndefined,
            translations_of = Map.empty, summary_of = JNull\<rparr>"

definition hello_state :: state where
  "hello_state = \<lparr>messages = [hello], inputText = [], loading = False, error = None,
                  welcomeMessage = False\<rparr>"

text \<open>
  A second message, "Goodbye", created when the clock reads \<open>t\<close>, and the state holding
  both messages. With \<open>t = 7\<close> the two messages carry the same id, as they do when both
  are sent within one tick of \<^verbatim>\<open>Date.now()\<close>.
\<close>

definition goodbye :: "int \<Rightarrow> message" where
  "goodbye t = \<lparr>id_of = t, text_of = js ''Goodbye'', language_of = JUndefined,
                translations_of = Map.empty, summary_of = JNull\<rparr>"

definition two_messages :: "int \<Rightarrow> state" where
  "two_messages t = \<lparr>messages = [hello, goodbye t], inputText = [], loading = False,
                     error = None, welcomeMessage = False\<rparr>"

definition two_sends :: "int \<Rightarrow> event list" where
  "two_sends t =
     [Input (js ''Hello world''), Send (platform 7 NetworkError),
      Input (js ''Goodbye''), Send (platform t NetworkError)]"

text \<open>A summarizer that returns the text it is given.\<close>

definition echo :: window_ai where
  "echo = Summarizer (\<lambda>text. Some (JStr text))"

text \<open>
  A session at the page: the user types and sends "Hello world", picks Spanish in the
  message's \<^verbatim>\<open>select\<close> and gets the translation, then puts the \<^verbatim>\<open>select\<close> back on its
  placeholder, whose value is the empty string, and the service answers that request too.
\<close>

definition pick_spanish :: "event list" where
  "pick_spanish =
     [Input (js ''Hello world''), Send (platform 7 NetworkError),
      SelectChange (platform 8 (translated ''Hola mundo'')) 0 (js ''es'')]"

definition back_to_placeholder :: "event list" where
  "back_to_placeholder =
     pick_spanish @
     [Settle (platform 8 (translated ''Hola mundo'')) 0,
      SelectChange (platform 9 (translated ''Hello world'')) 0 [],
      Settle (platform 9 (translated ''Hello world'')) 0]"

text \<open>
  Where the sessions end: \<open>waiting\<close> after the Spanish pick, \<open>spanish_done\<close> once its
  translation has arrived, \<open>placeholder_done\<close> after the whole second session.
\<close>

definition waiting :: config where
  "waiting =
     \<lparr>ui = \<lparr>messages = [hello], inputText = [], loading = True, error = None,
             welcomeMessage = False\<rparr>,
      inflight = [TranslateCall 7 (js ''es'') (js ''Hello world'')]\<rparr>"

definition spanish_done :: config where
  "spanish_done =
     \<lparr>ui = \<lparr>messages = [hello\<lparr>translations_of := [js ''es'' \<mapsto> JStr (js ''Hola mundo'')]\<rparr>],
             inputText = [], loading = False, error = None, welcomeMessage = False\<rparr>,
      inflight = []\<rparr>"

definition placeholder_done :: config where
  "placeholder_done =
     \<lparr>ui = \<lparr>messages =
               [hello\<lparr>translations_of :=
                  [js ''es'' \<mapsto> JStr (js ''Hola mundo''), [] \<mapsto> JStr (js ''Hello world'')]\<rparr>],
             inputText = [], loading = False, error = None, welcomeMessage = False\<rparr>,
      inflight = []\<rparr>"

text \<open>
  A message of 151 letters, sent at time 7: long enough for the summarize button and
  without a summary.
\<close>

definition long_text :: jsstring where
  "long_text = replicate 151 0x61"

definition long_sent :: config where
  "long_sent =
     \<lparr>ui = \<lparr>messages = [\<lparr>id_of = 7, text_of = long_text, language_of = JUndefined,
                           translations_of = Map.empty, summary_of = JNull\<rparr>],
             inputText = [], loading = False, error = None, welcomeMessage = False\<rparr>,
      inflight = []\<rparr>"

section \<open>Submitting a message\<close>

lemma trim_empty_iff: "trim s = [] \<longleftrightarrow> (\<forall>c\<in>set s. is_ws c)"
proof
  assume "trim s = []"
  then have rest: "\<forall>c\<in>set (dropWhile is_ws s). is_ws c"
    by (simp add: trim_def)
  show "\<forall>c\<in>set s. is_ws c"
  proof (cases "dropWhile is_ws s")
    case Nil
    then show ?thesis by simp
  next
    case (Cons x xs)
    then have "\<not> is_ws x" using hd_dropWhile [of is_ws s] by simp
    moreover have "is_ws x" using rest Cons by simp
    ultimately show ?thesis by simp
  qed
next
  assume "\<forall>c\<in>set s. is_ws c"
  then show "trim s = []" by (auto simp: trim_def dest: set_dropWhileD)
qed

text \<open>
  Claim C3. When the trimmed input is not empty, \<open>handleSend\<close> appends exactly one
  message to the end of the list: its text is the input as typed (not trimmed), its
  translations are empty and its summary is \<^verbatim>\<open>null\<close>; the error is cleared and the input
  buffer emptied, and nothing else changes. When the input is empty or all whitespace,
  \<open>handleSend\<close> returns the state it was given.
\<close>

theorem handleSend_submit:
  "(trim (inputText st) \<noteq> [] \<longrightarrow>
      handleSend e st =
        st\<lparr>messages := messages st @
              [\<lparr>id_of = now e, text_of = inputText st, language_of = JUndefined,
                translations_of = Map.empty, summary_of = JNull\<rparr>],
           inputText := [], loading := False, error := None\<rparr>) \<and>
   ((\<forall>c\<in>set (inputText st). is_ws c) \<longrightarrow> handleSend e st = st)"
  by (simp add: handleSend_def handleSend_entry_def Let_def trim_empty_iff)

theorem handleSend_submit_witness:
  "trim (inputText (initial\<lparr>inputText := js '' Hi ''\<rparr>)) \<noteq> [] \<and>
   handleSend (platform 7 NetworkError) (initial\<lparr>inputText := js '' Hi ''\<rparr>) =
     \<lparr>messages = [\<lparr>id_of = 7, text_of = js '' Hi '', language_of = JUndefined,
                   translations_of = Map.empty, summary_of = JNull\<rparr>],
      inputText = [], loading = False, error = None, welcomeMessage = True\<rparr> \<and>
   trim (inputText (initial\<lparr>inputText := js ''  ''\<rparr>)) = [] \<and>
   handleSend (platform 7 NetworkError) (initial\<lparr>inputText := js ''  ''\<rparr>) =
     initial\<lparr>inputText := js ''  ''\<rparr>"
proof -
  have a: "trim (inputText (initial\<lparr>inputText := js '' Hi ''\<rparr>)) \<noteq> []"
    by (simp add: js_def trim_def is_ws_def)
  have b: "\<forall>c\<in>set (inputText (initial\<lparr>inputText := js ''  ''\<rparr>)). is_ws c"
    by (simp add: js_def is_ws_def)
  from a b
    handleSend_submit [of "initial\<lparr>inputText := js '' Hi ''\<rparr>" "platform 7 NetworkError"]
    handleSend_submit [of "initial\<lparr>inputText := js ''  ''\<rparr>" "platform 7 NetworkError"]
  show ?thesis by (simp add: initial_def platform_def trim_empty_iff)
qed

section \<open>The handlers, case by case\<close>

text \<open>
  The definitions that evaluating a handler on a concrete state unfolds.
\<close>

lemmas eval_defs = js_def trim_def is_ws_def platform_def translated_def hello_def hello_state_def
  initial_def start_config_def handleSend_def handleSend_entry_def
  handleSummarize_start_def handleSummarize_settle_def handleSummarize_def
  handleTranslate_start_def handleTranslate_settle_def handleTranslate_def
  translateText_def translateText_try_def translate_url_def summarizeText_def ok_def
  unreserved_def lead_def trail_def escape_def utf8_def percent_def hex_digit_def
  select_values_def codes_def languages_def eligible_def Let_def

text \<open>
  A function that does not change what the predicate looks at does not change which
  element \<open>find\<close> returns.
\<close>

lemma find_map_same: "(\<And>x. P (f x) = P x) \<Longrightarrow> find P (map f xs) = map_option f (find P xs)"
  by (induction xs) auto

text \<open>
  Each handler in closed form: when the lookup finds the message, the handler is its
  second turn applied to the outcome of the call on that message's text; when it finds
  nothing, the handler stores the engine's TypeError message and calls nothing.
\<close>

lemma handleSummarize_found:
  "find (\<lambda>m. id_of m = mid) (messages st) = Some m \<Longrightarrow>
   handleSummarize e st mid =
     handleSummarize_settle (st\<lparr>loading := True, error := None\<rparr>) mid
       (summarizeText (ai e) (text_of m))"
  by (simp add: handleSummarize_def handleSummarize_start_def)

lemma handleSummarize_missing:
  "find (\<lambda>m. id_of m = mid) (messages st) = None \<Longrightarrow>
   handleSummarize e st mid = st\<lparr>loading := False, error := Some (typeErrorMessage e)\<rparr>"
  by (simp add: handleSummarize_def handleSummarize_start_def)

lemma handleTranslate_found:
  "find (\<lambda>m. id_of m = mid) (messages st) = Some m \<Longrightarrow>
   handleTranslate e st mid lang =
     handleTranslate_settle (st\<lparr>loading := True, error := None\<rparr>) mid lang
       (translateText e (text_of m) lang)"
  by (simp add: handleTranslate_def handleTranslate_start_def)

lemma handleTranslate_missing:
  "find (\<lambda>m. id_of m = mid) (messages st) = None \<Longrightarrow>
   handleTranslate e st mid lang = st\<lparr>loading := False, error := Some (typeErrorMessage e)\<rparr>"
  by (simp add: handleTranslate_def handleTranslate_start_def)

section \<open>Summarizing\<close>

text \<open>
  What \<open>find\<close> returns is an element of the list that satisfies the predicate.
\<close>

lemma find_SomeD: "find P xs = Some x \<Longrightarrow> x \<in> set xs \<and> P x"
  by (induction xs) (auto split: if_splits)

text \<open>
  Two messages sent one after the other; when the clock reads 7 at both sends they carry
  the same id.
\<close>

lemma two_sends_run:
  "run select_values (two_sends t) start_config = Some \<lparr>ui = two_messages t, inflight = []\<rparr>"
  by (simp add: two_sends_def two_messages_def goodbye_def eval_defs)

text \<open>
  Claim C6 (as stated) fails when two messages carry the same id, which the page reaches
  by two sends within one tick of the clock: \<^verbatim>\<open>find\<close> returns the first of them, the
  summarizer is called on its text, and the \<^verbatim>\<open>map\<close> in \<^verbatim>\<open>setMessages\<close> writes the result
  into every message with that id. Here "Goodbye", a different message, receives the
  summary of "Hello world".
\<close>

theorem summarize_shared_id_counterexample:
  "run select_values (two_sends 7) start_config = Some \<lparr>ui = two_messages 7, inflight = []\<rparr> \<and>
   messages (two_messages 7) = [hello, goodbye 7] \<and>
   find (\<lambda>m. id_of m = 7) (messages (two_messages 7)) = Some hello \<and>
   messages (handleSummarize ((platform 8 NetworkError)\<lparr>ai := echo\<rparr>) (two_messages 7) 7) =
     [hello\<lparr>summary_of := JStr (js ''Hello world'')\<rparr>,
      (goodbye 7)\<lparr>summary_of := JStr (js ''Hello world'')\<rparr>] \<and>
   (goodbye 7)\<lparr>summary_of := JStr (js ''Hello world'')\<rparr> \<noteq> goodbye 7"
proof -
  have "messages (handleSummarize ((platform 8 NetworkError)\<lparr>ai := echo\<rparr>) (two_messages 7) 7) =
     [hello\<lparr>summary_of := JStr (js ''Hello world'')\<rparr>,
      (goodbye 7)\<lparr>summary_of := JStr (js ''Hello world'')\<rparr>]"
    by (simp add: two_messages_def goodbye_def echo_def eval_defs)
  moreover have "(goodbye 7)\<lparr>summary_of := JStr (js ''Hello world'')\<rparr> \<noteq> goodbye 7"
    by (simp add: goodbye_def js_def)
  moreover have "find (\<lambda>m. id_of m = 7) (messages (two_messages 7)) = Some hello"
    by (simp add: two_messages_def hello_def)
  ultimately show ?thesis
    using two_sends_run [of 7] by (simp add: two_messages_def)
qed

text \<open>
  Claim C6, amended. When the message is found and the summarizer returns \<open>v\<close> for its
  text, \<open>handleSummarize\<close> ends in the state it started from with \<open>summary\<close> set to
  exactly \<open>v\<close> in every message carrying that id, the other fields of those messages
  and every message with another id as before, the error cleared and the busy flag off.
  When the ids of the messages are distinct, the found message is the only one that
  changes: all other messages are unchanged.
\<close>

theorem summarize_success:
  assumes "find (\<lambda>m. id_of m = mid) (messages st) = Some m"
    and "ai e = Summarizer f" and "f (text_of m) = Some v"
  shows "handleSummarize e st mid =
           st\<lparr>messages :=
                 map (\<lambda>msg. if id_of msg = mid then msg\<lparr>summary_of := v\<rparr> else msg) (messages st),
              loading := False, error := None\<rparr> \<and>
         (distinct (map id_of (messages st)) \<longrightarrow>
            handleSummarize e st mid =
              st\<lparr>messages :=
                    map (\<lambda>msg. if msg = m then msg\<lparr>summary_of := v\<rparr> else msg) (messages st),
                 loading := False, error := None\<rparr>)"
proof (intro conjI impI)
  show whole: "handleSummarize e st mid =
      st\<lparr>messages :=
            map (\<lambda>msg. if id_of msg = mid then msg\<lparr>summary_of := v\<rparr> else msg) (messages st),
         loading := False, error := None\<rparr>"
    using assms by (simp add: handleSummarize_found handleSummarize_settle_def summarizeText_def)
  assume "distinct (map id_of (messages st))"
  then have inj: "inj_on id_of (set (messages st))"
    by (simp add: distinct_map)
  from assms(1) have m: "m \<in> set (messages st)" "id_of m = mid"
    using find_SomeD [of "\<lambda>m. id_of m = mid" "messages st" m] by simp_all
  have "(id_of msg = mid) = (msg = m)" if "msg \<in> set (messages st)" for msg
    using that m inj by (auto dest: inj_onD)
  then have "map (\<lambda>msg. if id_of msg = mid then msg\<lparr>summary_of := v\<rparr> else msg) (messages st) =
      map (\<lambda>msg. if msg = m then msg\<lparr>summary_of := v\<rparr> else msg) (messages st)"
    by (intro map_cong refl) simp
  with whole show "handleSummarize e st mid =
      st\<lparr>messages :=
            map (\<lambda>msg. if msg = m then msg\<lparr>summary_of := v\<rparr> else msg) (messages st),
         loading := False, error := None\<rparr>"
    by simp
qed

theorem summarize_success_witness:
  "distinct (map id_of (messages (two_messages 9))) \<and>
   handleSummarize ((platform 10 NetworkError)\<lparr>ai := echo\<rparr>) (two_messages 9) 9 =
     (two_messages 9)\<lparr>messages := [hello, (goodbye 9)\<lparr>summary_of := JStr (js ''Goodbye'')\<rparr>]\<rparr> \<and>
   handleSummarize ((platform 10 NetworkError)\<lparr>ai := echo\<rparr>) (two_messages 7) 7 =
     (two_messages 7)\<lparr>messages := [hello\<lparr>summary_of := JStr (js ''Hello world'')\<rparr>,
                                    (goodbye 7)\<lparr>summary_of := JStr (js ''Hello world'')\<rparr>]\<rparr>"
proof -
  let ?e = "(platform 10 NetworkError)\<lparr>ai := echo\<rparr>"
  have d: "distinct (map id_of (messages (two_messages 9)))"
    by (simp add: two_messages_def hello_def goodbye_def)
  have f9: "find (\<lambda>m. id_of m = 9) (messages (two_messages 9)) = Some (goodbye 9)"
    by (simp add: two_messages_def hello_def goodbye_def)
  have f7: "find (\<lambda>m. id_of m = 7) (messages (two_messages 7)) = Some hello"
    by (simp add: two_messages_def hello_def)
  have a: "ai ?e = Summarizer (\<lambda>text. Some (JStr text))"
    by (simp add: platform_def echo_def)
  have ne: "hello \<noteq> goodbye 9"
    by (simp add: hello_def goodbye_def)
  from summarize_success [OF f9 a refl] summarize_success [OF f7 a refl] d ne
  show ?thesis
    by (simp add: two_messages_def) (simp add: hello_def goodbye_def js_def)
qed

section \<open>Failed calls\<close>

text \<open>
  Claim C5. When the message is found and the collaborator fails (the summarizer is
  unavailable or errors; the translation request cannot be made, is rejected or comes back
  with a status that is not a success), the handler ends in the state it started from
  except for the two flags: the message list is the same list, the busy flag is off and
  the error is the fixed text \<^verbatim>\<open>Summarization failed\<close>, respectively \<^verbatim>\<open>Translation failed.\<close>
\<close>

theorem failed_call:
  assumes "find (\<lambda>m. id_of m = mid) (messages st) = Some m"
  shows "(summarizer_fails (ai e) (text_of m) \<longrightarrow>
            handleSummarize e st mid =
              st\<lparr>loading := False, error := Some (js ''Summarization failed'')\<rparr>) \<and>
         (request_fails e (text_of m) lang \<longrightarrow>
            handleTranslate e st mid lang =
              st\<lparr>loading := False, error := Some (js ''Translation failed.'')\<rparr>)"
proof (intro conjI impI)
  assume "summarizer_fails (ai e) (text_of m)"
  then have "summarizeText_try (ai e) (text_of m) = None"
    by (cases "ai e") (simp_all add: summarizer_fails_def)
  with assms show "handleSummarize e st mid =
      st\<lparr>loading := False, error := Some (js ''Summarization failed'')\<rparr>"
    by (simp add: handleSummarize_found handleSummarize_settle_def summarizeText_def)
next
  assume "request_fails e (text_of m) lang"
  then have "translateText_try e (text_of m) lang = None"
    by (auto simp: request_fails_def translateText_try_def split: option.splits fetch_outcome.splits)
  with assms show "handleTranslate e st mid lang =
      st\<lparr>loading := False, error := Some (js ''Translation failed.'')\<rparr>"
    by (simp add: handleTranslate_found handleTranslate_settle_def translateText_def)
qed

theorem failed_call_witness:
  "summarizer_fails (ai (platform 8 (Response 500 NotJson))) (text_of hello) \<and>
   handleSummarize (platform 8 (Response 500 NotJson)) hello_state 7 =
     hello_state\<lparr>error := Some (js ''Summarization failed'')\<rparr> \<and>
   request_fails (platform 8 (Response 500 NotJson)) (text_of hello) (js ''fr'') \<and>
   handleTranslate (platform 8 (Response 500 NotJson)) hello_state 7 (js ''fr'') =
     hello_state\<lparr>error := Some (js ''Translation failed.'')\<rparr>"
proof -
  have found: "find (\<lambda>m. id_of m = 7) (messages hello_state) = Some hello"
    by (simp add: hello_state_def hello_def)
  have a: "summarizer_fails (ai (platform 8 (Response 500 NotJson))) (text_of hello)"
    by (simp add: summarizer_fails_def platform_def)
  have b: "request_fails (platform 8 (Response 500 NotJson)) (text_of hello) (js ''fr'')"
    by (simp add: request_fails_def platform_def translate_url_def ok_def hello_def js_def
        unreserved_def lead_def trail_def escape_def utf8_def percent_def hex_digit_def)
  from a b failed_call [OF found, of "platform 8 (Response 500 NotJson)" "js ''fr''"]
  show ?thesis by (simp add: hello_state_def)
qed

section \<open>A success status with a malformed body\<close>

text \<open>
  Claim C1 (as stated) fails: on a 200 response whose JSON body is \<^verbatim>\<open>{}\<close>,
  \<^verbatim>\<open>data.translation || "Translation failed."\<close> yields the fallback string as the value of
  \<^verbatim>\<open>translateText\<close>, so the handler stores it as the Spanish translation and leaves the
  error cleared.
\<close>

theorem malformed_body_counterexample:
  "ok 200 \<and> get_translation (JObj []) = Some JUndefined \<and>
   map (\<lambda>m. translations_of m (js ''es'')) (messages hello_state) = [None] \<and>
   map (\<lambda>m. translations_of m (js ''es''))
     (messages (handleTranslate (platform 8 (Response 200 (Json (JObj [])))) hello_state 7
        (js ''es''))) = [Some (JStr (js ''Translation failed.''))] \<and>
   error (handleTranslate (platform 8 (Response 200 (Json (JObj [])))) hello_state 7 (js ''es''))
     = None"
  by (simp add: eval_defs)

text \<open>
  Claim C1, amended. For a response with a success status: when the body is not JSON, or
  is the JSON value \<^verbatim>\<open>null\<close>, the call fails exactly as for a non-success status (message
  list unchanged, error \<^verbatim>\<open>Translation failed.\<close>); when the body is JSON whose
  \<^verbatim>\<open>translation\<close> is missing or falsy, the call succeeds with the fixed string
  \<^verbatim>\<open>Translation failed.\<close> stored as the translation under the target code, and the error
  stays cleared.
\<close>

theorem malformed_body:
  assumes "find (\<lambda>m. id_of m = mid) (messages st) = Some m"
    and "translate_url (encodeURIComponent e) (text_of m) lang = Some url"
    and "fetch e url = Response status b" and "ok status"
  shows "((b = NotJson \<or> b = Json JNull) \<longrightarrow>
            handleTranslate e st mid lang =
              st\<lparr>loading := False, error := Some (js ''Translation failed.'')\<rparr>) \<and>
         (b = Json data \<and> get_translation data = Some t \<and> \<not> truthy t \<longrightarrow>
            handleTranslate e st mid lang =
              st\<lparr>messages :=
                    map (\<lambda>msg. if id_of msg = mid
                               then msg\<lparr>translations_of :=
                                          (translations_of msg)
                                            (lang \<mapsto> JStr (js ''Translation failed.''))\<rparr>
                               else msg)
                      (messages st),
                 loading := False, error := None\<rparr>)"
  using assms
  by (auto simp: handleTranslate_found handleTranslate_settle_def translateText_def
      translateText_try_def)

theorem malformed_body_witness:
  "handleTranslate (platform 8 (Response 200 NotJson)) hello_state 7 (js ''es'') =
     hello_state\<lparr>error := Some (js ''Translation failed.'')\<rparr> \<and>
   handleTranslate (platform 8 (Response 200 (Json (JObj [(js ''translation'', JStr [])]))))
       hello_state 7 (js ''es'') =
     hello_state\<lparr>messages :=
       [hello\<lparr>translations_of := [js ''es'' \<mapsto> JStr (js ''Translation failed.'')]\<rparr>]\<rparr>"
proof -
  have found: "find (\<lambda>m. id_of m = 7) (messages hello_state) = Some hello"
    by (simp add: hello_state_def hello_def)
  have url: "translate_url (encodeURIComponent (platform 8 r)) (text_of hello) (js ''es'') =
      Some (js ''https://lingva.ml/api/v1/en/es/Hello%20world'')" for r
    by (simp add: eval_defs)
  have ok: "ok 200" by (simp add: ok_def)
  have r1: "fetch (platform 8 (Response 200 NotJson))
      (js ''https://lingva.ml/api/v1/en/es/Hello%20world'') = Response 200 NotJson"
    by (simp add: platform_def)
  have r2: "fetch (platform 8 (Response 200 (Json (JObj [(js ''translation'', JStr [])]))))
      (js ''https://lingva.ml/api/v1/en/es/Hello%20world'') =
      Response 200 (Json (JObj [(js ''translation'', JStr [])]))"
    by (simp add: platform_def)
  have g: "get_translation (JObj [(js ''translation'', JStr [])]) = Some (JStr [])"
    by simp
  from malformed_body [OF found url r1 ok]
    malformed_body [OF found url r2 ok, of "JObj [(js ''translation'', JStr [])]" "JStr []"] g
  show ?thesis by (simp add: hello_state_def hello_def)
qed

section \<open>Translating twice\<close>

text \<open>
  Two successful calls in a row on the same message id: the second call finds the same
  text, and each message with that id ends with both entries written, the later one
  last.
\<close>

lemma translate_twice:
  assumes found: "find (\<lambda>m. id_of m = mid) (messages st) = Some m"
    and first: "translateText e1 (text_of m) l1 = Inr v1"
    and second: "translateText e2 (text_of m) l2 = Inr v2"
    and i: "i < length (messages st)" "id_of (messages st ! i) = mid"
  shows "translations_of (messages (handleTranslate e2 (handleTranslate e1 st mid l1) mid l2) ! i)
           = (translations_of (messages st ! i))(l1 \<mapsto> v1, l2 \<mapsto> v2)"
proof -
  let ?f = "\<lambda>msg. if id_of msg = mid
      then msg\<lparr>translations_of := (translations_of msg)(l1 \<mapsto> v1)\<rparr> else msg"
  have st1: "handleTranslate e1 st mid l1 =
      st\<lparr>messages := map ?f (messages st), loading := False, error := None\<rparr>"
    using found first by (simp add: handleTranslate_found handleTranslate_settle_def)
  have "find (\<lambda>m. id_of m = mid) (map ?f (messages st)) = Some (?f m)"
    using found by (simp add: find_map_same)
  then have found1: "find (\<lambda>m. id_of m = mid) (messages (handleTranslate e1 st mid l1)) = Some (?f m)"
    by (simp add: st1)
  have text1: "text_of (?f m) = text_of m" by simp
  have "handleTranslate e2 (handleTranslate e1 st mid l1) mid l2 =
      handleTranslate_settle ((handleTranslate e1 st mid l1)\<lparr>loading := True, error := None\<rparr>)
        mid l2 (Inr v2)"
    using handleTranslate_found [OF found1, of e2 l2] second by (simp only: text1)
  then show ?thesis using i by (simp add: st1 handleTranslate_settle_def)
qed

text \<open>
  Claim C4. After a successful translation to \<open>l1\<close> returning \<open>v1\<close> followed by a
  successful translation to \<open>l2\<close> returning \<open>v2\<close>, the message's translations hold
  \<open>v1\<close> under \<open>l1\<close> and \<open>v2\<close> under \<open>l2\<close> when the two codes differ; when they are the
  same code, its entry holds the second result; every other key has the value it had
  before.
\<close>

theorem translate_accumulates:
  assumes "find (\<lambda>m. id_of m = mid) (messages st) = Some m"
    and "translateText e1 (text_of m) l1 = Inr v1"
    and "translateText e2 (text_of m) l2 = Inr v2"
    and "i < length (messages st)" and "id_of (messages st ! i) = mid"
  shows "let after = translations_of
               (messages (handleTranslate e2 (handleTranslate e1 st mid l1) mid l2) ! i);
             before = translations_of (messages st ! i)
         in (l1 \<noteq> l2 \<longrightarrow> after l1 = Some v1 \<and> after l2 = Some v2) \<and>
            (l1 = l2 \<longrightarrow> after l1 = Some v2) \<and>
            (\<forall>k. k \<noteq> l1 \<and> k \<noteq> l2 \<longrightarrow> after k = before k)"
  using translate_twice [OF assms] by (simp add: Let_def)

theorem translate_accumulates_witness:
  "translations_of
     (messages (handleTranslate (platform 9 (translated ''Bonjour le monde''))
        (handleTranslate (platform 8 (translated ''Hola mundo'')) hello_state 7 (js ''es''))
        7 (js ''fr'')) ! 0) =
     [js ''es'' \<mapsto> JStr (js ''Hola mundo''), js ''fr'' \<mapsto> JStr (js ''Bonjour le monde'')] \<and>
   translations_of
     (messages (handleTranslate (platform 9 (translated ''Hola mundo!''))
        (handleTranslate (platform 8 (translated ''Hola mundo'')) hello_state 7 (js ''es''))
        7 (js ''es'')) ! 0) =
     [js ''es'' \<mapsto> JStr (js ''Hola mundo!'')]"
proof -
  have found: "find (\<lambda>m. id_of m = 7) (messages hello_state) = Some hello"
    by (simp add: hello_state_def hello_def)
  have tr: "translateText (platform t (translated s)) (text_of hello) l =
      Inr (if s = [] then JStr (js ''Translation failed.'') else JStr (js s))" for t s l
    by (simp add: eval_defs)
  have i: "0 < length (messages hello_state)" "id_of (messages hello_state ! 0) = 7"
    by (simp_all add: hello_state_def hello_def)
  have before: "translations_of (messages hello_state ! 0) = Map.empty"
    by (simp add: hello_state_def hello_def)
  have ne: "js ''es'' \<noteq> js ''fr''" by (simp add: js_def)
  let ?a = "translations_of
     (messages (handleTranslate (platform 9 (translated ''Bonjour le monde''))
        (handleTranslate (platform 8 (translated ''Hola mundo'')) hello_state 7 (js ''es''))
        7 (js ''fr'')) ! 0)"
  let ?b = "translations_of
     (messages (handleTranslate (platform 9 (translated ''Hola mundo!''))
        (handleTranslate (platform 8 (translated ''Hola mundo'')) hello_state 7 (js ''es''))
        7 (js ''es'')) ! 0)"
  have a: "?a (js ''es'') = Some (JStr (js ''Hola mundo'')) \<and>
      ?a (js ''fr'') = Some (JStr (js ''Bonjour le monde'')) \<and>
      (\<forall>k. k \<noteq> js ''es'' \<and> k \<noteq> js ''fr'' \<longrightarrow> ?a k = None)"
    using translate_accumulates [OF found tr [of 8 "''Hola mundo''" "js ''es''"]
        tr [of 9 "''Bonjour le monde''" "js ''fr''"] i] ne
    by (simp add: Let_def before)
  have b: "?b (js ''es'') = Some (JStr (js ''Hola mundo!'')) \<and>
      (\<forall>k. k \<noteq> js ''es'' \<longrightarrow> ?b k = None)"
    using translate_accumulates [OF found tr [of 8 "''Hola mundo''" "js ''es''"]
        tr [of 9 "''Hola mundo!''" "js ''es''"] i]
    by (simp add: Let_def before)
  from a have "?a = [js ''es'' \<mapsto> JStr (js ''Hola mundo''),
      js ''fr'' \<mapsto> JStr (js ''Bonjour le monde'')]"
    by (intro ext) (simp add: ne)
  moreover from b have "?b = [js ''es'' \<mapsto> JStr (js ''Hola mundo!'')]"
    by (intro ext) simp
  ultimately show ?thesis by (rule conjI)
qed

section \<open>An id that matches no message\<close>

text \<open>
  Claim C10. When no message has the given id, both handlers finish in their first turn
  with no call pending and no request made: the message list is unchanged, the busy flag
  is off and the error is the engine's own TypeError message (whatever it is; the handlers
  do not replace it by their fixed texts). When some message has the id, the first turn
  ends with a call pending, so this branch is not taken.
\<close>

theorem unknown_message:
  "(mid \<notin> id_of ` set (messages st) \<longrightarrow>
      handleSummarize_start e st mid =
        (st\<lparr>loading := False, error := Some (typeErrorMessage e)\<rparr>, None) \<and>
      handleSummarize e st mid = st\<lparr>loading := False, error := Some (typeErrorMessage e)\<rparr> \<and>
      handleTranslate_start e st mid lang =
        (st\<lparr>loading := False, error := Some (typeErrorMessage e)\<rparr>, None) \<and>
      handleTranslate e st mid lang = st\<lparr>loading := False, error := Some (typeErrorMessage e)\<rparr> \<and>
      handleTranslate_request e st mid lang = None) \<and>
   (mid \<in> id_of ` set (messages st) \<longrightarrow>
      snd (handleSummarize_start e st mid) \<noteq> None \<and>
      snd (handleTranslate_start e st mid lang) \<noteq> None)"
proof (intro conjI impI)
  assume "mid \<notin> id_of ` set (messages st)"
  then have none: "find (\<lambda>m. id_of m = mid) (messages st) = None"
    by (auto simp: find_None_iff)
  show "handleSummarize_start e st mid =
      (st\<lparr>loading := False, error := Some (typeErrorMessage e)\<rparr>, None)"
    by (simp add: handleSummarize_start_def none)
  show "handleSummarize e st mid = st\<lparr>loading := False, error := Some (typeErrorMessage e)\<rparr>"
    by (simp add: handleSummarize_missing none)
  show "handleTranslate_start e st mid lang =
      (st\<lparr>loading := False, error := Some (typeErrorMessage e)\<rparr>, None)"
    by (simp add: handleTranslate_start_def none)
  show "handleTranslate e st mid lang = st\<lparr>loading := False, error := Some (typeErrorMessage e)\<rparr>"
    by (simp add: handleTranslate_missing none)
  show "handleTranslate_request e st mid lang = None"
    by (simp add: handleTranslate_request_def handleTranslate_start_def none)
next
  assume "mid \<in> id_of ` set (messages st)"
  then obtain m where some: "find (\<lambda>m. id_of m = mid) (messages st) = Some m"
    by (cases "find (\<lambda>m. id_of m = mid) (messages st)") (auto simp: find_None_iff)
  show "snd (handleSummarize_start e st mid) \<noteq> None"
    by (simp add: handleSummarize_start_def some)
  show "snd (handleTranslate_start e st mid lang) \<noteq> None"
    by (simp add: handleTranslate_start_def some)
qed

theorem unknown_message_witness:
  "8 \<notin> id_of ` set (messages hello_state) \<and>
   handleSummarize (platform 9 NetworkError) hello_state 8 =
     hello_state\<lparr>error := Some (js ''message is undefined'')\<rparr> \<and>
   handleTranslate (platform 9 NetworkError) hello_state 8 (js ''es'') =
     hello_state\<lparr>error := Some (js ''message is undefined'')\<rparr> \<and>
   handleTranslate_request (platform 9 NetworkError) hello_state 8 (js ''es'') = None \<and>
   js ''message is undefined'' \<noteq> js ''Summarization failed'' \<and>
   js ''message is undefined'' \<noteq> js ''Translation failed.'' \<and>
   7 \<in> id_of ` set (messages hello_state) \<and>
   snd (handleTranslate_start (platform 9 NetworkError) hello_state 7 (js ''es'')) \<noteq> None"
proof -
  have a: "8 \<notin> id_of ` set (messages hello_state)" "7 \<in> id_of ` set (messages hello_state)"
    by (simp_all add: hello_state_def hello_def)
  have b: "js ''message is undefined'' \<noteq> js ''Summarization failed''"
    "js ''message is undefined'' \<noteq> js ''Translation failed.''"
    by (simp_all add: js_def)
  from a b unknown_message [of 8 hello_state "platform 9 NetworkError" "js ''es''"]
    unknown_message [of 7 hello_state "platform 9 NetworkError" "js ''es''"]
  show ?thesis by (simp add: hello_state_def platform_def)
qed

section \<open>The source language of a request\<close>

text \<open>
  Claim C8. When \<open>handleTranslate\<close> finds the message and its text can be encoded, the
  handler's result is its second turn applied to what \<^verbatim>\<open>translateText\<close> makes of the
  response of \<^verbatim>\<open>fetch\<close> at the URL \<^verbatim>\<open>https://lingva.ml/api/v1/en/\<close>, the target code, a
  slash and the encoded text: the request goes to the source segment \<^verbatim>\<open>en\<close> and the
  outcome of the call is the outcome of that request. The same holds, with the same URL,
  when the messages are given any \<open>language\<close> values \<open>l\<close> whatever.
\<close>

theorem source_language_fixed:
  assumes "find (\<lambda>m. id_of m = mid) (messages st) = Some m"
    and "encodeURIComponent e (text_of m) = Some t"
  shows "handleTranslate e st mid lang =
           handleTranslate_settle (st\<lparr>loading := True, error := None\<rparr>) mid lang
             (case fetch e (js ''https://lingva.ml/api/v1/en/'' @ lang @ js ''/'' @ t) of
                NetworkError \<Rightarrow> Inl (js ''Translation failed.'')
              | Response status b \<Rightarrow>
                  if \<not> ok status then Inl (js ''Translation failed.'')
                  else (case b of
                          NotJson \<Rightarrow> Inl (js ''Translation failed.'')
                        | Json data \<Rightarrow>
                            (case get_translation data of
                               None \<Rightarrow> Inl (js ''Translation failed.'')
                             | Some v \<Rightarrow>
                                 Inr (if truthy v then v
                                      else JStr (js ''Translation failed.''))))) \<and>
         handleTranslate e (st\<lparr>messages := map (\<lambda>m. m\<lparr>language_of := l m\<rparr>) (messages st)\<rparr>)
             mid lang =
           handleTranslate_settle
             (st\<lparr>messages := map (\<lambda>m. m\<lparr>language_of := l m\<rparr>) (messages st),
                 loading := True, error := None\<rparr>) mid lang
             (case fetch e (js ''https://lingva.ml/api/v1/en/'' @ lang @ js ''/'' @ t) of
                NetworkError \<Rightarrow> Inl (js ''Translation failed.'')
              | Response status b \<Rightarrow>
                  if \<not> ok status then Inl (js ''Translation failed.'')
                  else (case b of
                          NotJson \<Rightarrow> Inl (js ''Translation failed.'')
                        | Json data \<Rightarrow>
                            (case get_translation data of
                               None \<Rightarrow> Inl (js ''Translation failed.'')
                             | Some v \<Rightarrow>
                                 Inr (if truthy v then v
                                      else JStr (js ''Translation failed.''))))) \<and>
         handleTranslate_request e st mid lang =
           Some (js ''https://lingva.ml/api/v1/en/'' @ lang @ js ''/'' @ t)"
proof -
  let ?url = "js ''https://lingva.ml/api/v1/en/'' @ lang @ js ''/'' @ t"
  let ?outcome = "case fetch e ?url of
                NetworkError \<Rightarrow> Inl (js ''Translation failed.'')
              | Response status b \<Rightarrow>
                  if \<not> ok status then Inl (js ''Translation failed.'')
                  else (case b of
                          NotJson \<Rightarrow> Inl (js ''Translation failed.'')
                        | Json data \<Rightarrow>
                            (case get_translation data of
                               None \<Rightarrow> Inl (js ''Translation failed.'')
                             | Some v \<Rightarrow>
                                 Inr (if truthy v then v
                                      else JStr (js ''Translation failed.''))))"
  have call: "translateText e (text_of m) lang = ?outcome"
    using assms(2)
    by (simp add: translateText_def translateText_try_def translate_url_def
        split: fetch_outcome.splits body.splits option.splits)
  have plain: "handleTranslate e st mid lang =
      handleTranslate_settle (st\<lparr>loading := True, error := None\<rparr>) mid lang ?outcome"
    by (simp only: handleTranslate_found [OF assms(1)] call)
  let ?st = "st\<lparr>messages := map (\<lambda>m. m\<lparr>language_of := l m\<rparr>) (messages st)\<rparr>"
  have "find (\<lambda>m. id_of m = mid) (messages ?st) = Some (m\<lparr>language_of := l m\<rparr>)"
    using assms(1) by (simp add: find_map_same)
  from handleTranslate_found [OF this, of e lang]
  have "handleTranslate e ?st mid lang =
      handleTranslate_settle (?st\<lparr>loading := True, error := None\<rparr>) mid lang
        (translateText e (text_of m) lang)"
    by simp
  then have other: "handleTranslate e ?st mid lang =
      handleTranslate_settle
        (st\<lparr>messages := map (\<lambda>m. m\<lparr>language_of := l m\<rparr>) (messages st),
            loading := True, error := None\<rparr>) mid lang ?outcome"
    by (simp only: call)
  have req: "handleTranslate_request e st mid lang = Some ?url"
    using assms
    by (simp add: handleTranslate_request_def handleTranslate_start_def translate_url_def)
  from plain other req show ?thesis by (intro conjI)
qed

theorem source_language_fixed_witness:
  "handleTranslate
     ((platform 8 NetworkError)
        \<lparr>fetch := \<lambda>url. if url = js ''https://lingva.ml/api/v1/en/es/Hello%20world''
                        then translated ''Hola mundo'' else NetworkError\<rparr>)
     (hello_state\<lparr>messages := [hello\<lparr>language_of := JStr (js ''fr'')\<rparr>]\<rparr>) 7 (js ''es'') =
   hello_state\<lparr>messages :=
     [hello\<lparr>language_of := JStr (js ''fr''),
            translations_of := [js ''es'' \<mapsto> JStr (js ''Hola mundo'')]\<rparr>]\<rparr> \<and>
   handleTranslate_request
     ((platform 8 NetworkError)
        \<lparr>fetch := \<lambda>url. if url = js ''https://lingva.ml/api/v1/en/es/Hello%20world''
                        then translated ''Hola mundo'' else NetworkError\<rparr>)
     hello_state 7 (js ''es'') =
   Some (js ''https://lingva.ml/api/v1/en/es/Hello%20world'')"
proof -
  let ?e = "(platform 8 NetworkError)
        \<lparr>fetch := \<lambda>url. if url = js ''https://lingva.ml/api/v1/en/es/Hello%20world''
                        then translated ''Hola mundo'' else NetworkError\<rparr>"
  have found: "find (\<lambda>m. id_of m = 7) (messages hello_state) = Some hello"
    by (simp add: hello_state_def hello_def)
  have enc: "encodeURIComponent ?e (text_of hello) = Some (js ''Hello%20world'')"
    by (simp add: eval_defs)
  have url: "js ''https://lingva.ml/api/v1/en/'' @ js ''es'' @ js ''/'' @ js ''Hello%20world'' =
      js ''https://lingva.ml/api/v1/en/es/Hello%20world''"
    by (simp add: js_def)
  from source_language_fixed [OF found enc, of "js ''es''" "\<lambda>m. JStr (js ''fr'')"]
  show ?thesis
    by (simp only: url)
      (simp add: hello_state_def hello_def platform_def translated_def ok_def
        handleTranslate_settle_def js_def)
qed

section \<open>The page as a whole\<close>

text \<open>
  A property that holds at the start and that every event keeps holds in every
  configuration the page can reach.
\<close>

lemma run_invariant:
  assumes "run opts evs c0 = Some c" and "I c0"
    and step: "\<And>ev c c'. I c \<Longrightarrow> fire opts ev c = Some c' \<Longrightarrow> I c'"
  shows "I c"
  using assms(1,2)
proof (induction evs arbitrary: c0)
  case Nil
  then show ?case by simp
next
  case (Cons ev evs)
  then obtain c1 where c1: "fire opts ev c0 = Some c1" "run opts evs c1 = Some c"
    by (auto split: option.splits)
  from step [OF Cons.prems(2) c1(1)] have "I c1" .
  with Cons.IH c1(2) show ?case by blast
qed

lemma reachable_invariant:
  assumes "reachable opts c" and "I start_config"
    and "\<And>ev c c'. I c \<Longrightarrow> fire opts ev c = Some c' \<Longrightarrow> I c'"
  shows "I c"
  using assms unfolding reachable_def by (blast intro: run_invariant)

lemma run_reachable: "run opts evs start_config = Some c \<Longrightarrow> reachable opts c"
  by (auto simp: reachable_def)

text \<open>
  The sessions defined above, run.
\<close>

lemma pick_spanish_run: "run select_values pick_spanish start_config = Some waiting"
  by (simp add: pick_spanish_def waiting_def eval_defs)

lemma spanish_done_run:
  "run codes (pick_spanish @ [Settle (platform 8 (translated ''Hola mundo'')) 0]) start_config =
     Some spanish_done"
  by (simp add: pick_spanish_def spanish_done_def eval_defs)

lemma back_to_placeholder_run:
  "run select_values back_to_placeholder start_config = Some placeholder_done"
  by (simp add: back_to_placeholder_def pick_spanish_def placeholder_done_def eval_defs)

lemma long_text_trim: "trim long_text \<noteq> []"
  by (simp add: trim_empty_iff long_text_def is_ws_def)

lemma long_sent_run:
  "run select_values [Input long_text, Send (platform 7 NetworkError)] start_config =
     Some long_sent"
  using long_text_trim
  by (simp add: long_sent_def start_config_def initial_def handleSend_def handleSend_entry_def
      Let_def platform_def)

text \<open>
  What each turn of each handler does to the message list.
\<close>

lemma messages_handleSend:
  "messages (handleSend e st) =
     (if trim (inputText st) = [] then messages st
      else messages st @ [\<lparr>id_of = now e, text_of = inputText st, language_of = JUndefined,
                            translations_of = Map.empty, summary_of = JNull\<rparr>])"
  by (simp add: handleSend_def handleSend_entry_def Let_def)

lemma messages_handleSummarize_start:
  "handleSummarize_start e st mid = (s, p) \<Longrightarrow> messages s = messages st"
  by (auto simp: handleSummarize_start_def Let_def split: option.splits)

lemma messages_handleTranslate_start:
  "handleTranslate_start e st mid lang = (s, p) \<Longrightarrow> messages s = messages st"
  by (auto simp: handleTranslate_start_def Let_def split: option.splits)

lemma messages_handleSummarize_settle:
  "messages (handleSummarize_settle st mid r) =
     (case r of Inl _ \<Rightarrow> messages st
      | Inr v \<Rightarrow> map (\<lambda>msg. if id_of msg = mid then msg\<lparr>summary_of := v\<rparr> else msg) (messages st))"
  by (simp add: handleSummarize_settle_def split: sum.splits)

lemma messages_handleTranslate_settle:
  "messages (handleTranslate_settle st mid lang r) =
     (case r of Inl _ \<Rightarrow> messages st
      | Inr v \<Rightarrow> map (\<lambda>msg. if id_of msg = mid
                            then msg\<lparr>translations_of := (translations_of msg)(lang \<mapsto> v)\<rparr>
                            else msg) (messages st))"
  by (simp add: handleTranslate_settle_def split: sum.splits)

subsection \<open>The language of a message\<close>

lemma no_language_settle_call: "no_language st \<Longrightarrow> no_language (settle_call e st k)"
  by (cases k)
    (auto simp: no_language_def list_all_iff messages_handleSummarize_settle
      messages_handleTranslate_settle split: sum.splits)

lemma no_language_fire:
  assumes "no_language (ui c)" and "fire opts ev c = Some c'"
  shows "no_language (ui c')"
proof (cases ev)
  case (Input v)
  with assms show ?thesis by (auto simp: no_language_def)
next
  case (Send e)
  with assms show ?thesis
    by (auto simp: no_language_def list_all_iff messages_handleSend split: if_splits)
next
  case (SummarizeClick e i)
  with assms show ?thesis
    by (auto simp: no_language_def Let_def dest!: messages_handleSummarize_start
        split: if_splits prod.splits option.splits)
next
  case (SelectChange e i v)
  with assms show ?thesis
    by (auto simp: no_language_def Let_def dest!: messages_handleTranslate_start
        split: if_splits prod.splits option.splits)
next
  case (Settle e k)
  with assms show ?thesis
    by (auto simp: no_language_settle_call split: if_splits)
qed

lemma no_language_handleSend: "no_language st \<Longrightarrow> no_language (handleSend e st)"
  by (simp add: no_language_def messages_handleSend)

lemma no_language_handleSummarize_settle:
  "no_language st \<Longrightarrow> no_language (handleSummarize_settle st mid r)"
  by (cases r) (auto simp: no_language_def list_all_iff messages_handleSummarize_settle)

lemma no_language_handleTranslate_settle:
  "no_language st \<Longrightarrow> no_language (handleTranslate_settle st mid lang r)"
  by (cases r) (auto simp: no_language_def list_all_iff messages_handleTranslate_settle)

lemma no_language_flags:
  "no_language (st\<lparr>loading := a, error := b\<rparr>) = no_language st"
  by (simp add: no_language_def)

lemma no_language_handleSummarize: "no_language st \<Longrightarrow> no_language (handleSummarize e st mid)"
  by (cases "find (\<lambda>m. id_of m = mid) (messages st)")
    (simp_all add: handleSummarize_missing handleSummarize_found
      no_language_handleSummarize_settle no_language_flags)

lemma no_language_handleTranslate:
  "no_language st \<Longrightarrow> no_language (handleTranslate e st mid lang)"
  by (cases "find (\<lambda>m. id_of m = mid) (messages st)")
    (simp_all add: handleTranslate_missing handleTranslate_found
      no_language_handleTranslate_settle no_language_flags)

text \<open>
  Claim C9. In every configuration the page can reach, every message's \<open>language\<close> is
  \<^verbatim>\<open>undefined\<close>: \<open>handleSend\<close> creates messages without it and no later turn sets it.
  So the condition for offering the summarize button is false for every message, and a
  click on a summarize button is never among the events the page offers. Handler by
  handler: from a state in which no message has a language, \<open>handleSend\<close>,
  \<open>handleSummarize\<close> and \<open>handleTranslate\<close> each end in such a state.
\<close>

theorem language_never_set:
  assumes "reachable opts c"
  shows "(\<forall>m\<in>set (messages (ui c)). language_of m = JUndefined \<and> \<not> eligible m) \<and>
         fire opts (SummarizeClick e i) c = None \<and>
         (no_language st \<longrightarrow>
            no_language (handleSend e st) \<and> no_language (handleSummarize e st mid) \<and>
            no_language (handleTranslate e st mid lang))"
proof -
  have "no_language (ui c)"
    using assms
  proof (rule reachable_invariant)
    show "no_language (ui start_config)"
      by (simp add: no_language_def start_config_def initial_def)
  qed (rule no_language_fire)
  then have all: "\<forall>m\<in>set (messages (ui c)). language_of m = JUndefined"
    by (simp add: no_language_def list_all_iff)
  then have "\<forall>m\<in>set (messages (ui c)). \<not> eligible m"
    by (simp add: eligible_def)
  with all show ?thesis
    by (auto simp: no_language_handleSend no_language_handleSummarize
        no_language_handleTranslate)
qed

theorem language_never_set_witness:
  "reachable select_values long_sent \<and>
   map language_of (messages (ui long_sent)) = [JUndefined] \<and>
   map (\<lambda>m. 150 < length (text_of m)) (messages (ui long_sent)) = [True] \<and>
   map (\<lambda>m. truthy (summary_of m)) (messages (ui long_sent)) = [False] \<and>
   map eligible (messages (ui long_sent)) = [False] \<and>
   fire select_values (SummarizeClick (platform 8 (translated ''Hola mundo'')) 0) long_sent = None \<and>
   no_language hello_state \<and>
   no_language (handleTranslate (platform 8 (translated ''Hola mundo'')) hello_state 7 (js ''es''))"
proof -
  have r: "reachable select_values long_sent"
    using long_sent_run by (rule run_reachable)
  have shape: "messages (ui long_sent) =
      [\<lparr>id_of = 7, text_of = long_text, language_of = JUndefined,
        translations_of = Map.empty, summary_of = JNull\<rparr>]"
    by (simp add: long_sent_def)
  have len: "150 < length long_text" by (simp add: long_text_def)
  have h: "no_language hello_state"
    by (simp add: no_language_def hello_state_def hello_def)
  from language_never_set [OF r, where e = "platform 8 (translated ''Hola mundo'')" and i = 0
      and st = hello_state and mid = 7 and lang = "js ''es''"] r len h
  show ?thesis by (simp add: shape)
qed

subsection \<open>The busy flag\<close>

lemma loading_handleSummarize_start:
  "handleSummarize_start e st mid = (s, p) \<Longrightarrow> loading s \<longleftrightarrow> p \<noteq> None"
  by (auto simp: handleSummarize_start_def Let_def split: option.splits)

lemma loading_handleTranslate_start:
  "handleTranslate_start e st mid lang = (s, p) \<Longrightarrow> loading s \<longleftrightarrow> p \<noteq> None"
  by (auto simp: handleTranslate_start_def Let_def split: option.splits)

lemma loading_handleSummarize_settle: "\<not> loading (handleSummarize_settle st mid r)"
  by (simp add: handleSummarize_settle_def split: sum.splits)

lemma loading_handleTranslate_settle: "\<not> loading (handleTranslate_settle st mid lang r)"
  by (simp add: handleTranslate_settle_def split: sum.splits)

lemma loading_handleSend: "trim (inputText st) \<noteq> [] \<Longrightarrow> \<not> loading (handleSend e st)"
  by (simp add: handleSend_def handleSend_entry_def Let_def)

lemma loading_settle_call: "\<not> loading (settle_call e st k)"
  by (cases k) (simp_all add: loading_handleSummarize_settle loading_handleTranslate_settle)

lemma busy_matches_fire:
  assumes "busy_matches c" and "fire opts ev c = Some c'"
  shows "busy_matches c'"
proof (cases ev)
  case (Input v)
  with assms show ?thesis by (auto simp: busy_matches_def)
next
  case (Send e)
  with assms show ?thesis
    by (auto simp: busy_matches_def loading_handleSend split: if_splits)
next
  case (SummarizeClick e i)
  with assms show ?thesis
    by (auto simp: busy_matches_def Let_def dest!: loading_handleSummarize_start
        split: if_splits prod.splits option.splits)
next
  case (SelectChange e i v)
  with assms show ?thesis
    by (auto simp: busy_matches_def Let_def dest!: loading_handleTranslate_start
        split: if_splits prod.splits option.splits)
next
  case (Settle e k)
  with assms have k: "k < length (inflight c)"
    and c': "c' = \<lparr>ui = settle_call e (ui c) (inflight c ! k),
                   inflight = take k (inflight c) @ drop (Suc k) (inflight c)\<rparr>"
    by (auto split: if_splits)
  from k assms(1) have "k = 0" "length (inflight c) = 1"
    by (auto simp: busy_matches_def)
  then show ?thesis by (simp add: c' busy_matches_def loading_settle_call)
qed

text \<open>
  Claim C7. In every configuration the page can reach, the busy flag is on exactly when a
  call is pending: on from the turn that starts the call, through the whole time the call
  is pending, and off once the handler has resumed. Handler by handler: \<open>handleSend\<close>
  turns the flag on at entry and has it off when it returns; the first turn of
  \<open>handleSummarize\<close> and of \<open>handleTranslate\<close> leaves it on exactly when a call is pending;
  the second turn leaves it off whatever the outcome \<open>r\<close> of the call, success or
  failure.
\<close>

theorem busy_lifecycle:
  assumes "reachable opts c"
  shows "(loading (ui c) \<longleftrightarrow> inflight c \<noteq> []) \<and>
         loading (handleSend_entry st) \<and>
         (trim (inputText st) \<noteq> [] \<longrightarrow> \<not> loading (handleSend e st)) \<and>
         (handleSummarize_start e st mid = (s1, p1) \<longrightarrow> (loading s1 \<longleftrightarrow> p1 \<noteq> None)) \<and>
         \<not> loading (handleSummarize_settle s mid r) \<and>
         (handleTranslate_start e st mid lang = (s2, p2) \<longrightarrow> (loading s2 \<longleftrightarrow> p2 \<noteq> None)) \<and>
         \<not> loading (handleTranslate_settle s mid lang r)"
proof -
  have "busy_matches c"
    using assms
  proof (rule reachable_invariant)
    show "busy_matches start_config"
      by (simp add: busy_matches_def start_config_def initial_def)
  qed (rule busy_matches_fire)
  then have "loading (ui c) \<longleftrightarrow> inflight c \<noteq> []"
    by (simp add: busy_matches_def)
  moreover have "loading (handleSend_entry st)"
    by (simp add: handleSend_entry_def)
  ultimately show ?thesis
    using loading_handleSummarize_start [of e st mid s1 p1]
      loading_handleTranslate_start [of e st mid lang s2 p2]
    by (simp add: loading_handleSend loading_handleSummarize_settle
        loading_handleTranslate_settle)
qed

theorem busy_lifecycle_witness:
  "reachable select_values waiting \<and> loading (ui waiting) \<and>
   inflight waiting = [TranslateCall 7 (js ''es'') (js ''Hello world'')] \<and>
   reachable select_values placeholder_done \<and> \<not> loading (ui placeholder_done) \<and>
   inflight placeholder_done = [] \<and>
   trim (inputText (initial\<lparr>inputText := js ''Hello world''\<rparr>)) \<noteq> [] \<and>
   \<not> loading (handleSend (platform 7 NetworkError) (initial\<lparr>inputText := js ''Hello world''\<rparr>)) \<and>
   handleSummarize_start (platform 8 NetworkError) hello_state 7 =
     (hello_state\<lparr>loading := True\<rparr>, Some (js ''Hello world'')) \<and>
   \<not> loading (handleSummarize_settle (hello_state\<lparr>loading := True\<rparr>) 7
       (Inl (js ''Translation failed.''))) \<and>
   handleTranslate_start (platform 8 NetworkError) hello_state 7 (js ''es'') =
     (hello_state\<lparr>loading := True\<rparr>, Some (js ''Hello world'')) \<and>
   \<not> loading (handleTranslate_settle (hello_state\<lparr>loading := True\<rparr>) 7 (js ''es'')
       (Inl (js ''Translation failed.'')))"
proof -
  have r1: "reachable select_values waiting"
    using pick_spanish_run by (rule run_reachable)
  have r2: "reachable select_values placeholder_done"
    using back_to_placeholder_run by (rule run_reachable)
  have t: "trim (inputText (initial\<lparr>inputText := js ''Hello world''\<rparr>)) \<noteq> []"
    by (simp add: js_def trim_def is_ws_def)
  have s: "handleTranslate_start (platform 8 NetworkError) hello_state 7 (js ''es'') =
      (hello_state\<lparr>loading := True\<rparr>, Some (js ''Hello world''))"
    by (simp add: handleTranslate_start_def hello_state_def hello_def)
  have s': "handleSummarize_start (platform 8 NetworkError) hello_state 7 =
      (hello_state\<lparr>loading := True\<rparr>, Some (js ''Hello world''))"
    by (simp add: handleSummarize_start_def hello_state_def hello_def)
  have w: "inflight waiting = [TranslateCall 7 (js ''es'') (js ''Hello world'')]"
    by (simp add: waiting_def)
  have d: "inflight placeholder_done = []"
    by (simp add: placeholder_done_def)
  from busy_lifecycle [OF r1, where st = "initial\<lparr>inputText := js ''Hello world''\<rparr>"
      and e = "platform 7 NetworkError"]
    busy_lifecycle [OF r2, where st = hello_state and e = "platform 8 NetworkError"
      and mid = 7 and lang = "js ''es''" and ?s1.0 = "hello_state\<lparr>loading := True\<rparr>"
      and ?p1.0 = "Some (js ''Hello world'')" and ?s2.0 = "hello_state\<lparr>loading := True\<rparr>"
      and ?p2.0 = "Some (js ''Hello world'')" and s = "hello_state\<lparr>loading := True\<rparr>"
      and r = "Inl (js ''Translation failed.'')"]
    r1 r2 t s s' w d
  show ?thesis by simp
qed

subsection \<open>The keys of the translations\<close>

lemma translation_keys_subset:
  "translation_keys st \<subseteq> S \<longleftrightarrow> (\<forall>m\<in>set (messages st). dom (translations_of m) \<subseteq> S)"
  by (simp add: translation_keys_def UN_subset_iff)

lemma translation_keys_messages:
  "messages s = messages st \<Longrightarrow> translation_keys s = translation_keys st"
  by (simp add: translation_keys_def)

lemma translation_keys_handleSend: "translation_keys (handleSend e st) = translation_keys st"
  by (simp add: translation_keys_def messages_handleSend)

lemma keys_of_map_eq:
  assumes "\<And>m. dom (translations_of (f m)) = dom (translations_of m)"
  shows "(\<Union>m\<in>set (map f xs). dom (translations_of m)) = (\<Union>m\<in>set xs. dom (translations_of m))"
  using assms by simp

lemma keys_of_map_subset:
  assumes "\<forall>m\<in>set xs. dom (translations_of m) \<subseteq> S"
    and "\<And>m. dom (translations_of m) \<subseteq> S \<Longrightarrow> dom (translations_of (f m)) \<subseteq> S"
  shows "\<forall>m\<in>set (map f xs). dom (translations_of m) \<subseteq> S"
  using assms by simp

lemma translation_keys_handleSummarize_settle:
  "translation_keys (handleSummarize_settle st mid r) = translation_keys st"
proof (cases r)
  case (Inl a)
  then show ?thesis by (simp add: translation_keys_def messages_handleSummarize_settle)
next
  case (Inr v)
  let ?f = "\<lambda>msg. if id_of msg = mid then msg\<lparr>summary_of := v\<rparr> else msg"
  have msgs: "messages (handleSummarize_settle st mid r) = map ?f (messages st)"
    by (simp add: messages_handleSummarize_settle Inr)
  show ?thesis
    unfolding translation_keys_def msgs by (rule keys_of_map_eq) simp
qed

lemma translation_keys_handleTranslate_settle:
  assumes "translation_keys st \<subseteq> S" and "lang \<in> S"
  shows "translation_keys (handleTranslate_settle st mid lang r) \<subseteq> S"
proof (cases r)
  case (Inl a)
  with assms(1) show ?thesis
    by (simp add: translation_keys_def messages_handleTranslate_settle)
next
  case (Inr v)
  let ?f = "\<lambda>msg. if id_of msg = mid
      then msg\<lparr>translations_of := (translations_of msg)(lang \<mapsto> v)\<rparr> else msg"
  have msgs: "messages (handleTranslate_settle st mid lang r) = map ?f (messages st)"
    by (simp add: messages_handleTranslate_settle Inr)
  from assms(1) have "\<forall>m\<in>set (messages st). dom (translations_of m) \<subseteq> S"
    by (simp only: translation_keys_subset)
  then have "\<forall>m\<in>set (map ?f (messages st)). dom (translations_of m) \<subseteq> S"
    by (rule keys_of_map_subset) (simp add: assms(2))
  then show ?thesis
    by (simp only: translation_keys_subset msgs)
qed

lemma translation_keys_handleSummarize:
  "translation_keys (handleSummarize e st mid) = translation_keys st"
proof (cases "find (\<lambda>m. id_of m = mid) (messages st)")
  case None
  then show ?thesis
    by (simp add: handleSummarize_missing translation_keys_def)
next
  case (Some m)
  have "translation_keys (st\<lparr>loading := True, error := None\<rparr>) = translation_keys st"
    by (simp add: translation_keys_def)
  then show ?thesis
    by (simp add: handleSummarize_found [OF Some] translation_keys_handleSummarize_settle)
qed

lemma translation_keys_handleTranslate:
  "translation_keys (handleTranslate e st mid lang) \<subseteq> insert lang (translation_keys st)"
proof (cases "find (\<lambda>m. id_of m = mid) (messages st)")
  case None
  then have "translation_keys (handleTranslate e st mid lang) = translation_keys st"
    by (simp add: handleTranslate_missing translation_keys_def)
  then show ?thesis by blast
next
  case (Some m)
  have "translation_keys (st\<lparr>loading := True, error := None\<rparr>) \<subseteq>
      insert lang (translation_keys st)"
    by (simp add: translation_keys_def subset_insertI)
  then have "translation_keys (handleTranslate_settle (st\<lparr>loading := True, error := None\<rparr>)
      mid lang (translateText e (text_of m) lang)) \<subseteq> insert lang (translation_keys st)"
    by (rule translation_keys_handleTranslate_settle) simp
  then show ?thesis by (simp only: handleTranslate_found [OF Some])
qed

lemma keys_within_fire:
  assumes inv: "keys_within opts c" and fire: "fire opts ev c = Some c'"
  shows "keys_within opts c'"
proof -
  from inv have keys: "translation_keys (ui c) \<subseteq> set opts"
    and calls: "\<forall>x\<in>set (inflight c). target_within opts x"
    by (simp_all add: keys_within_def list_all_iff)
  show ?thesis
  proof (cases ev)
    case (Input v)
    with fire have c': "c' = c\<lparr>ui := (ui c)\<lparr>inputText := v\<rparr>\<rparr>" by simp
    have "translation_keys (ui c') = translation_keys (ui c)"
      by (rule translation_keys_messages) (simp add: c')
    with keys calls show ?thesis by (simp add: keys_within_def list_all_iff c')
  next
    case (Send e)
    with fire have c': "c' = c\<lparr>ui := (handleSend e (ui c))\<lparr>welcomeMessage := False\<rparr>\<rparr>"
      by (simp split: if_splits)
    have "translation_keys (ui c') = translation_keys (handleSend e (ui c))"
      by (rule translation_keys_messages) (simp add: c')
    with keys calls show ?thesis
      by (simp add: keys_within_def list_all_iff c' translation_keys_handleSend)
  next
    case (SummarizeClick e i)
    obtain s p where start:
      "handleSummarize_start e (ui c) (id_of (messages (ui c) ! i)) = (s, p)"
      by (cases "handleSummarize_start e (ui c) (id_of (messages (ui c) ! i))")
    with fire SummarizeClick have ui': "ui c' = s"
      and calls': "set (inflight c') \<subseteq>
        set (inflight c) \<union> {x. \<exists>t. x = SummarizeCall (id_of (messages (ui c) ! i)) t}"
      by (auto simp: Let_def split: if_splits option.splits)
    have "translation_keys s = translation_keys (ui c)"
      by (rule translation_keys_messages) (rule messages_handleSummarize_start [OF start])
    moreover have "\<forall>x\<in>set (inflight c'). target_within opts x"
      using calls calls' by auto
    ultimately show ?thesis using keys by (simp add: keys_within_def list_all_iff ui')
  next
    case (SelectChange e i v)
    obtain s p where start:
      "handleTranslate_start e (ui c) (id_of (messages (ui c) ! i)) v = (s, p)"
      by (cases "handleTranslate_start e (ui c) (id_of (messages (ui c) ! i)) v")
    with fire SelectChange have v: "v \<in> set opts" and ui': "ui c' = s"
      and calls': "set (inflight c') \<subseteq>
        set (inflight c) \<union> {x. \<exists>t. x = TranslateCall (id_of (messages (ui c) ! i)) v t}"
      by (auto simp: Let_def split: if_splits option.splits)
    have "translation_keys s = translation_keys (ui c)"
      by (rule translation_keys_messages) (rule messages_handleTranslate_start [OF start])
    moreover have "\<forall>x\<in>set (inflight c'). target_within opts x"
      using calls calls' v by auto
    ultimately show ?thesis using keys by (simp add: keys_within_def list_all_iff ui')
  next
    case (Settle e k)
    with fire have k: "k < length (inflight c)"
      and c': "c' = \<lparr>ui = settle_call e (ui c) (inflight c ! k),
                     inflight = take k (inflight c) @ drop (Suc k) (inflight c)\<rparr>"
      by (auto split: if_splits)
    from k calls have here: "target_within opts (inflight c ! k)" by simp
    have "translation_keys (settle_call e (ui c) (inflight c ! k)) \<subseteq> set opts"
    proof (cases "inflight c ! k")
      case (SummarizeCall mid t)
      with keys show ?thesis by (simp add: translation_keys_handleSummarize_settle)
    next
      case (TranslateCall mid lang t)
      with here have "lang \<in> set opts" by simp
      with keys show ?thesis
        by (simp add: TranslateCall translation_keys_handleTranslate_settle)
    qed
    moreover have "\<forall>x\<in>set (take k (inflight c) @ drop (Suc k) (inflight c)).
        target_within opts x"
      using calls by (auto dest: in_set_takeD in_set_dropD)
    ultimately show ?thesis by (simp add: c' keys_within_def list_all_iff)
  qed
qed

lemma codes_set:
  "set codes = {js ''en'', js ''pt'', js ''es'', js ''ru'', js ''tr'', js ''fr''}"
  by (simp add: codes_def languages_def)

text \<open>
  Claim C2 (as stated) fails. The placeholder option of a \<^verbatim>\<open>select\<close> has the empty
  string as its value and \<open>handleTranslate\<close> does not check its target: putting the
  \<^verbatim>\<open>select\<close> back on the placeholder starts a translation to \<^verbatim>\<open>""\<close>, and when the
  service answers it the message gets an entry under the empty key, which is none of the
  six codes.
\<close>

theorem placeholder_counterexample:
  "run select_values back_to_placeholder start_config = Some placeholder_done \<and>
   map (\<lambda>m. translations_of m []) (messages (ui placeholder_done)) =
     [Some (JStr (js ''Hello world''))] \<and>
   [] \<notin> set codes"
proof -
  have "map (\<lambda>m. translations_of m []) (messages (ui placeholder_done)) =
      [Some (JStr (js ''Hello world''))]"
    by (simp add: placeholder_done_def hello_def)
  moreover have "[] \<notin> set codes"
    by (simp add: codes_def languages_def js_def)
  ultimately show ?thesis using back_to_placeholder_run by simp
qed

text \<open>
  Claim C2, amended. When the \<^verbatim>\<open>select\<close>s offer only values among the six codes, so that
  every translation is asked for with one of the six codes as its target, no message of
  a reachable configuration has a key outside \<^verbatim>\<open>en, pt, es, ru, tr, fr\<close>. Operation by
  operation: \<open>handleSend\<close> and \<open>handleSummarize\<close> leave the set of keys as it is, and
  \<open>handleTranslate\<close> adds at most its target.
\<close>

theorem translation_keys_configured:
  assumes "reachable opts c" and "set opts \<subseteq> set codes"
  shows "(\<forall>m\<in>set (messages (ui c)).
            dom (translations_of m) \<subseteq>
              {js ''en'', js ''pt'', js ''es'', js ''ru'', js ''tr'', js ''fr''}) \<and>
         translation_keys (handleSend e st) = translation_keys st \<and>
         translation_keys (handleSummarize e st mid) = translation_keys st \<and>
         translation_keys (handleTranslate e st mid lang) \<subseteq> insert lang (translation_keys st)"
proof -
  have "keys_within opts c"
    using assms(1)
  proof (rule reachable_invariant)
    show "keys_within opts start_config"
      by (simp add: keys_within_def translation_keys_def start_config_def initial_def)
  qed (rule keys_within_fire)
  then have "translation_keys (ui c) \<subseteq> set opts"
    by (simp add: keys_within_def)
  then have "translation_keys (ui c) \<subseteq> set codes"
    using assms(2) by (rule subset_trans)
  then have "\<forall>m\<in>set (messages (ui c)). dom (translations_of m) \<subseteq> set codes"
    by (simp add: translation_keys_subset)
  then have "\<forall>m\<in>set (messages (ui c)). dom (translations_of m) \<subseteq>
      {js ''en'', js ''pt'', js ''es'', js ''ru'', js ''tr'', js ''fr''}"
    by (simp only: codes_set)
  then show ?thesis
    using translation_keys_handleSend [of e st] translation_keys_handleSummarize [of e st mid]
      translation_keys_handleTranslate [of e st mid lang]
    by (intro conjI)
qed

theorem translation_keys_configured_witness:
  "reachable codes spanish_done \<and>
   map (\<lambda>m. dom (translations_of m)) (messages (ui spanish_done)) = [{js ''es''}] \<and>
   {js ''es''} \<subseteq> {js ''en'', js ''pt'', js ''es'', js ''ru'', js ''tr'', js ''fr''}"
proof -
  have r: "reachable codes spanish_done"
    using spanish_done_run by (rule run_reachable)
  have shape: "messages (ui spanish_done) =
      [hello\<lparr>translations_of := [js ''es'' \<mapsto> JStr (js ''Hola mundo'')]\<rparr>]"
    by (simp add: spanish_done_def)
  from translation_keys_configured [OF r subset_refl] r
  show ?thesis by (simp add: shape)
qed

end
